theory Spec2Isabelle
  imports Main "HOL-Library.Sublist" "HOL-Library.AList"
begin

section \<open>Python values and errors\<close>

text \<open>
  Python strings are modelled as \<open>string\<close>, holding the UTF-8 encoding of the text.
  Every pattern the program searches for, replaces or splits on is a whole number of
  code points, and UTF-8 is self-synchronising, so searching, replacing and splitting on
  the bytes gives the encoding of what Python computes on the code points.
\<close>

datatype error =
    ValueError
  | KeyError
  | TypeError
  | AttributeError
  | IndexError
  | OverflowError

text \<open>Sequencing of fallible steps: the first exception raised ends the computation.\<close>

definition andThen :: "error + 'a \<Rightarrow> ('a \<Rightarrow> error + 'b) \<Rightarrow> error + 'b" where
  "andThen r f = (case r of Inl e \<Rightarrow> Inl e | Inr x \<Rightarrow> f x)"

section \<open>String primitives\<close>

text \<open>
  \<open>str.replace(old, new)\<close>: the occurrences of \<open>old\<close> are found from left to right
  and do not overlap. With an empty \<open>old\<close> Python inserts \<open>new\<close> before every
  character and at the end.
\<close>

function py_replace :: "string \<Rightarrow> string \<Rightarrow> string \<Rightarrow> string" where
  "py_replace old new [] = (if old = [] then new else [])"
| "py_replace old new (c # cs) =
     (if old = [] then new @ c # py_replace old new cs
      else if prefix old (c # cs) then new @ py_replace old new (drop (length old) (c # cs))
      else c # py_replace old new cs)"
  by pat_completeness auto
termination
  by (relation "measure (\<lambda>(old, new, s). length s)") (auto simp: neq_Nil_conv)

section \<open>normalize\_text\<close>

definition normalize_text :: "string \<Rightarrow> string" where
  "normalize_text text =
     py_replace ''  '' ''''
       (py_replace (replicate 20 CHR '' '') ''''
         (py_replace [CHR 0x0D] ''''
           (py_replace [CHR 0x0A] '''' text)))"

section \<open>Configuration from the environment\<close>

text \<open>
  A default value or an environment value handed to \<open>set_env_var\<close>: \<open>None\<close>, a
  \<open>bool\<close>, an \<open>int\<close> or a \<open>str\<close>.
\<close>

datatype setting = ENone | EBool bool | EInt int | EStr string

text \<open>
  \<open>int(s)\<close> on a string: surrounding white space is stripped, one sign is allowed,
  and the digits may be separated by single underscores. Only the ASCII white space and
  the ASCII digits are recognised here; Python also accepts the other Unicode decimal
  digits and white space.
\<close>

definition is_py_space :: "char \<Rightarrow> bool" where
  "is_py_space c = (of_char c \<in> {9, 10, 11, 12, 13, 28, 29, 30, 31, 32 :: nat})"

definition py_strip :: "string \<Rightarrow> string" where
  "py_strip s = rev (dropWhile is_py_space (rev (dropWhile is_py_space s)))"

definition is_digit :: "char \<Rightarrow> bool" where
  "is_digit c = (48 \<le> (of_char c :: nat) \<and> (of_char c :: nat) \<le> 57)"

definition digit_val :: "char \<Rightarrow> nat" where
  "digit_val c = of_char c - 48"

fun int_digits :: "nat \<Rightarrow> string \<Rightarrow> nat option" where
  "int_digits acc [] = Some acc"
| "int_digits acc [c] = (if is_digit c then Some (10 * acc + digit_val c) else None)"
| "int_digits acc (c # d # ds) =
     (if is_digit c then int_digits (10 * acc + digit_val c) (d # ds)
      else if c = CHR ''_'' \<and> is_digit d then int_digits (10 * acc + digit_val d) ds
      else None)"

definition int_unsigned :: "string \<Rightarrow> nat option" where
  "int_unsigned s =
     (case s of [] \<Rightarrow> None
      | c # cs \<Rightarrow> if is_digit c then int_digits (digit_val c) cs else None)"

definition py_int :: "string \<Rightarrow> error + int" where
  "py_int s =
     (let t = py_strip s;
          r = (case t of
                 [] \<Rightarrow> None
               | c # cs \<Rightarrow>
                   if c = CHR ''+'' then map_option int (int_unsigned cs)
                   else if c = CHR ''-'' then map_option (\<lambda>n. - int n) (int_unsigned cs)
                   else map_option int (int_unsigned t))
      in case r of None \<Rightarrow> Inl ValueError | Some v \<Rightarrow> Inr v)"

text \<open>Decimal digits of a natural number, and the zero padding of \<open>%02d\<close> and \<open>%04d\<close>.\<close>

fun digits :: "nat \<Rightarrow> string" where
  "digits n = (if n < 10 then [char_of (48 + n)] else digits (n div 10) @ [char_of (48 + n mod 10)])"

definition zero_pad :: "nat \<Rightarrow> nat \<Rightarrow> string" where
  "zero_pad w n = replicate (w - length (digits n)) CHR ''0'' @ digits n"

definition int_str :: "int \<Rightarrow> string" where
  "int_str v = (if v < 0 then CHR ''-'' # digits (nat (- v)) else digits (nat v))"

text \<open>The three converters that \<open>__init__\<close> passes: \<open>str\<close>, \<open>bool\<close> and \<open>int\<close>.\<close>

definition conv_str :: "setting \<Rightarrow> error + string" where
  "conv_str v =
     (case v of
        ENone \<Rightarrow> Inr ''None''
      | EBool b \<Rightarrow> Inr (if b then ''True'' else ''False'')
      | EInt i \<Rightarrow> Inr (int_str i)
      | EStr s \<Rightarrow> Inr s)"

definition conv_bool :: "setting \<Rightarrow> error + bool" where
  "conv_bool v =
     (case v of
        ENone \<Rightarrow> Inr False
      | EBool b \<Rightarrow> Inr b
      | EInt i \<Rightarrow> Inr (i \<noteq> 0)
      | EStr s \<Rightarrow> Inr (s \<noteq> []))"

definition conv_int :: "setting \<Rightarrow> error + int" where
  "conv_int v =
     (case v of
        ENone \<Rightarrow> Inl TypeError
      | EBool b \<Rightarrow> Inr (if b then 1 else 0)
      | EInt i \<Rightarrow> Inr i
      | EStr s \<Rightarrow> py_int s)"

text \<open>
  \<open>set_env_var\<close>: the value is the environment's string, or the default when the
  variable is unset; \<open>None\<close> raises \<open>ValueError\<close>; otherwise the converted value is
  stored in the attribute, which here is the value returned.
\<close>

definition set_env_var ::
  "(string \<rightharpoonup> string) \<Rightarrow> string \<Rightarrow> setting \<Rightarrow> (setting \<Rightarrow> error + 'a) \<Rightarrow> error + 'a" where
  "set_env_var environ name default_value value_converter =
     (let value = (case environ name of None \<Rightarrow> default_value | Some s \<Rightarrow> EStr s)
      in if value = ENone then Inl ValueError else value_converter value)"

record config =
  SCHEDULE_BASE_URL :: string
  ENGLISH_TEACHER_FULL_NAME :: string
  IS_CANCEL_FIRST_ENGLISH_LESSON :: bool
  TIMEZONE_UTC_HOURS_SHIFT :: int
  WEEKS_TO_FETCH :: int
  FETCH_EVERY_HOURS :: int
  FIRST_LESSON_X_TRAVEL_TIME :: string

definition init :: "(string \<rightharpoonup> string) \<Rightarrow> error + config" where
  "init environ =
     andThen (set_env_var environ ''SCHEDULE_BASE_URL'' ENone conv_str) (\<lambda>url.
     andThen (set_env_var environ ''ENGLISH_TEACHER_FULL_NAME'' ENone conv_str) (\<lambda>teacher.
     andThen (set_env_var environ ''IS_CANCEL_FIRST_ENGLISH_LESSON'' (EBool False) conv_bool) (\<lambda>cancel.
     andThen (set_env_var environ ''TIMEZONE_UTC_HOURS_SHIFT'' (EInt 0) conv_int) (\<lambda>shift.
     andThen (set_env_var environ ''WEEKS_TO_FETCH'' (EInt 2) conv_int) (\<lambda>weeks.
     andThen (set_env_var environ ''FETCH_EVERY_HOURS'' (EInt 6) conv_int) (\<lambda>hours.
     andThen (set_env_var environ ''FIRST_LESSON_X_TRAVEL_TIME'' (EStr ''PT15M'') conv_str) (\<lambda>travel.
       Inr \<lparr>SCHEDULE_BASE_URL = url,
            ENGLISH_TEACHER_FULL_NAME = teacher,
            IS_CANCEL_FIRST_ENGLISH_LESSON = cancel,
            TIMEZONE_UTC_HOURS_SHIFT = shift,
            WEEKS_TO_FETCH = weeks,
            FETCH_EVERY_HOURS = hours,
            FIRST_LESSON_X_TRAVEL_TIME = travel\<rparr>)))))))"

section \<open>The cached events and their storage\<close>

text \<open>
  What \<open>json.load\<close> returns and \<open>json.dump\<close> accepts. An object is kept as the list of its
  items in order, as a Python \<open>dict\<close> keeps them. Floating-point numbers are left out.
\<close>

datatype json =
    JNull
  | JBool bool
  | JInt int
  | JString string
  | JArray "json list"
  | JObject "(string \<times> json) list"

text \<open>
  The dataclass \<open>CalendarEventJSON\<close>. Its annotations are not checked when an instance
  is built, so a field holds whatever value the caller passed: a string or \<open>None\<close>
  when \<open>get_calendar\<close> builds the event, any value of the document when the event is
  loaded from storage. The fields \<open>begin\<close> and \<open>end\<close> are written with a prime.
\<close>

record CalendarEventJSON =
  name :: json
  begin' :: json
  end' :: json
  status :: json
  location :: json
  description :: json
  x_apple_travel_time :: json

type_synonym cache = "(string \<times> CalendarEventJSON list) list"

text \<open>
  The storage file, seen through \<open>json.load\<close>: it is absent, or it holds text that
  \<open>json.load\<close> rejects with \<open>JSONDecodeError\<close> (as it does the empty text),
  or it holds the text of a document. \<open>json.dump\<close> writes the text of the document
  it is given. The directory of the file is taken to exist.
\<close>

datatype file_content = Undecodable | Decodes json

type_synonym storage = "file_content option"

definition field_names :: "string list" where
  "field_names =
     [''name'', ''begin'', ''end'', ''status'', ''location'', ''description'',
      ''x_apple_travel_time'']"

text \<open>\<open>dataclasses.asdict\<close> of an event: the fields in declaration order.\<close>

definition asdict :: "CalendarEventJSON \<Rightarrow> json" where
  "asdict event =
     JObject
       [(''name'', name event),
        (''begin'', begin' event),
        (''end'', end' event),
        (''status'', status event),
        (''location'', location event),
        (''description'', description event),
        (''x_apple_travel_time'', x_apple_travel_time event)]"

text \<open>
  \<open>CalendarEventJSON(**kwargs)\<close>: an unknown keyword or a missing required field raises
  \<open>TypeError\<close>; \<open>x_apple_travel_time\<close> defaults to \<open>None\<close>.
\<close>

definition new_CalendarEventJSON :: "(string \<times> json) list \<Rightarrow> error + CalendarEventJSON" where
  "new_CalendarEventJSON kwargs =
     (if \<not> list_all (\<lambda>k. List.member field_names k) (map fst kwargs) then Inl TypeError
      else
        (case (map_of kwargs ''name'', map_of kwargs ''begin'', map_of kwargs ''end'',
               map_of kwargs ''status'', map_of kwargs ''location'',
               map_of kwargs ''description'') of
           (Some n, Some b, Some e, Some s, Some l, Some d) \<Rightarrow>
             Inr \<lparr>name = n, begin' = b, end' = e, status = s, location = l, description = d,
                  x_apple_travel_time =
                    (case map_of kwargs ''x_apple_travel_time'' of None \<Rightarrow> JNull | Some t \<Rightarrow> t)\<rparr>
         | _ \<Rightarrow> Inl TypeError))"

text \<open>\<open>CalendarEventJSON(**event)\<close> for a value of the document: only a dict can be unpacked.\<close>

definition event_of_json :: "json \<Rightarrow> error + CalendarEventJSON" where
  "event_of_json event =
     (case event of JObject kwargs \<Rightarrow> new_CalendarEventJSON kwargs | _ \<Rightarrow> Inl TypeError)"

text \<open>
  \<open>for event in events\<close>: a list gives its elements, a dict its keys, a string its
  characters; \<open>None\<close>, a bool and a number are not iterable.
\<close>

definition py_iter :: "json \<Rightarrow> error + json list" where
  "py_iter events =
     (case events of
        JArray xs \<Rightarrow> Inr xs
      | JObject kvs \<Rightarrow> Inr (map (\<lambda>kv. JString (fst kv)) kvs)
      | JString s \<Rightarrow> Inr (map (\<lambda>c. JString [c]) s)
      | _ \<Rightarrow> Inl TypeError)"

fun events_of :: "json list \<Rightarrow> error + CalendarEventJSON list" where
  "events_of [] = Inr []"
| "events_of (event # rest) =
     andThen (event_of_json event) (\<lambda>e.
     andThen (events_of rest) (\<lambda>es. Inr (e # es)))"

text \<open>The dict comprehension of \<open>load_calendar_json\<close>, over the items of the document.\<close>

fun load_items :: "(string \<times> json) list \<Rightarrow> cache \<Rightarrow> error + cache" where
  "load_items [] acc = Inr acc"
| "load_items ((date_iso, events) # rest) acc =
     andThen (py_iter events) (\<lambda>xs.
     andThen (events_of xs) (\<lambda>es.
       load_items rest (AList.update date_iso es acc)))"

text \<open>
  \<open>load_calendar_json\<close>: opening the file for appending creates it, empty, when it is
  absent. Only \<open>JSONDecodeError\<close> is caught; a document that is not a dict has no
  \<open>items\<close>. The result is paired with the storage after the call.
\<close>

definition load_calendar_json :: "storage \<Rightarrow> (error + cache) \<times> storage" where
  "load_calendar_json file =
     (let content = (case file of None \<Rightarrow> Undecodable | Some c \<Rightarrow> c)
      in ((case content of
             Undecodable \<Rightarrow> Inr []
           | Decodes (JObject items) \<Rightarrow> load_items items []
           | Decodes _ \<Rightarrow> Inl AttributeError),
          Some content))"

definition save_calendar_json :: "cache \<Rightarrow> storage \<Rightarrow> storage" where
  "save_calendar_json data file =
     Some (Decodes (JObject (map (\<lambda>(date_iso, events). (date_iso, JArray (map asdict events))) data)))"


section \<open>Splitting and dates\<close>

text \<open>
  \<open>str.split(sep)\<close> with a separator: the parts between the occurrences of \<open>sep\<close>,
  found from left to right without overlap; an empty separator raises \<open>ValueError\<close>.
\<close>

function split_on :: "string \<Rightarrow> string \<Rightarrow> string list" where
  "split_on sep [] = [[]]"
| "split_on sep (c # cs) =
     (if sep \<noteq> [] \<and> prefix sep (c # cs) then [] # split_on sep (drop (length sep) (c # cs))
      else (case split_on sep cs of [] \<Rightarrow> [[c]] | p # ps \<Rightarrow> (c # p) # ps))"
  by pat_completeness auto
termination
  by (relation "measure (\<lambda>(sep, s). length s)") (auto simp: neq_Nil_conv)

definition py_split :: "string \<Rightarrow> string \<Rightarrow> error + string list" where
  "py_split sep s = (if sep = [] then Inl ValueError else Inr (split_on sep s))"

text \<open>
  A \<open>date\<close> is its proleptic Gregorian ordinal (\<open>date.toordinal()\<close>): day 1 is
  0001-01-01, a Monday, and day 3652059 is 9999-12-31. Adding a \<open>timedelta\<close> of whole
  days raises \<open>OverflowError\<close> outside this range.
\<close>

type_synonym date = int

definition weekday :: "date \<Rightarrow> int" where
  "weekday d = (d + 6) mod 7"

definition date_add :: "date \<Rightarrow> int \<Rightarrow> error + date" where
  "date_add d days =
     (if 1 \<le> d + days \<and> d + days \<le> 3652059 then Inr (d + days) else Inl OverflowError)"

definition days_in_month :: "int list" where
  "days_in_month = [-1, 31, 28, 31, 30, 31, 30, 31, 31, 30, 31, 30, 31]"

definition days_before_month :: "int list" where
  "days_before_month = [-1, 0, 31, 59, 90, 120, 151, 181, 212, 243, 273, 304, 334]"

text \<open>Year, month and day of an ordinal, computed as the \<open>datetime\<close> module does.\<close>

definition ord2ymd :: "date \<Rightarrow> int \<times> int \<times> int" where
  "ord2ymd ordinal =
     (let n = ordinal - 1;
          n400 = n div 146097; n = n mod 146097;
          year = n400 * 400 + 1;
          n100 = n div 36524; n = n mod 36524;
          n4 = n div 1461; n = n mod 1461;
          n1 = n div 365; n = n mod 365;
          year = year + n100 * 100 + n4 * 4 + n1
      in if n1 = 4 \<or> n100 = 4 then (year - 1, 12, 31)
         else
           (let leapyear = (n1 = 3 \<and> (n4 \<noteq> 24 \<or> n100 = 3));
                month = (n + 50) div 32;
                preceding = days_before_month ! nat month
                              + (if month > 2 \<and> leapyear then 1 else 0)
            in if preceding > n
               then (let month = month - 1;
                         preceding = preceding
                           - (days_in_month ! nat month + (if month = 2 \<and> leapyear then 1 else 0))
                     in (year, month, n - preceding + 1))
               else (year, month, n - preceding + 1)))"

definition date_isoformat :: "date \<Rightarrow> string" where
  "date_isoformat d =
     (case ord2ymd d of
        (y, m, dd) \<Rightarrow> zero_pad 4 (nat y) @ ''-'' @ zero_pad 2 (nat m) @ ''-'' @ zero_pad 2 (nat dd))"

text \<open>
  \<open>datetime(year, month, day, hour, minute)\<close> on the year, month and day of a date:
  an hour outside 0..23 or a minute outside 0..59 raises \<open>ValueError\<close>.
\<close>

definition datetime :: "date \<Rightarrow> int \<Rightarrow> int \<Rightarrow> error + date \<times> int \<times> int" where
  "datetime d hour minute =
     (if 0 \<le> hour \<and> hour \<le> 23 \<and> 0 \<le> minute \<and> minute \<le> 59 then Inr (d, hour, minute)
      else Inl ValueError)"

definition datetime_isoformat :: "date \<times> int \<times> int \<Rightarrow> string" where
  "datetime_isoformat dt =
     (case dt of
        (d, hour, minute) \<Rightarrow>
          date_isoformat d @ ''T'' @ zero_pad 2 (nat hour) @ '':'' @ zero_pad 2 (nat minute) @ '':00'')"


section \<open>The schedule page\<close>

text \<open>
  The page is seen through the selectors of \<open>get_calendar\<close>. A lesson row
  (\<open>ul > li\<close>) is the list of its direct child \<open>div\<close>s, each given by what
  \<open>select_one('div > div > span')\<close> finds in it: no element, or a \<open>span\<close> with its
  text and its \<open>class\<close> attribute (absent, or the list of its classes). A day block is
  the list of its lesson rows, and a response is its status code with the day blocks
  of \<open>#accordion > div.panel.panel-default\<close>.
\<close>

record span =
  span_text :: string
  span_class :: "string list option"

type_synonym lesson_tag = "span option list"

type_synonym day_tag = "lesson_tag list"

record response =
  status_code :: int
  day_tags :: "day_tag list"

definition english_subject :: string where
  "english_subject =
     [CHR 0xD0, CHR 0x90, CHR 0xD0, CHR 0xBD, CHR 0xD0, CHR 0xB3, CHR 0xD0, CHR 0xBB,
      CHR 0xD0, CHR 0xB8, CHR 0xD0, CHR 0xB9, CHR 0xD1, CHR 0x81, CHR 0xD0, CHR 0xBA,
      CHR 0xD0, CHR 0xB8, CHR 0xD0, CHR 0xB9, CHR 0x20, CHR 0xD1, CHR 0x8F, CHR 0xD0,
      CHR 0xB7, CHR 0xD1, CHR 0x8B, CHR 0xD0, CHR 0xBA]"

definition en_dash :: string where
  "en_dash = [CHR 0xE2, CHR 0x80, CHR 0x93]"

definition teacher_label :: string where
  "teacher_label =
     [CHR 0xD0, CHR 0x9F, CHR 0xD1, CHR 0x80, CHR 0xD0, CHR 0xB5, CHR 0xD0, CHR 0xBF,
      CHR 0xD0, CHR 0xBE, CHR 0xD0, CHR 0xB4, CHR 0xD0, CHR 0xB0, CHR 0xD0, CHR 0xB2,
      CHR 0xD0, CHR 0xB0, CHR 0xD1, CHR 0x82, CHR 0xD0, CHR 0xB5, CHR 0xD0, CHR 0xBB,
      CHR 0xD1, CHR 0x8C, CHR 0x3A, CHR 0x20]"

text \<open>
  \<open>lesson_tag_divs[k].select_one('div > div > span')\<close> followed by an attribute access:
  \<open>IndexError\<close> when the row has no child \<open>k\<close>, \<open>AttributeError\<close> when nothing is
  selected.
\<close>

definition div_span :: "lesson_tag \<Rightarrow> nat \<Rightarrow> error + span" where
  "div_span lesson_tag_divs k =
     (if k < length lesson_tag_divs
      then (case lesson_tag_divs ! k of None \<Rightarrow> Inl AttributeError | Some sp \<Rightarrow> Inr sp)
      else Inl IndexError)"

text \<open>The row filter of line 132: an English lesson of another teacher is skipped.\<close>

definition is_skipped :: "config \<Rightarrow> string \<Rightarrow> string \<Rightarrow> bool" where
  "is_skipped self subject teacher =
     (sublist english_subject subject \<and> \<not> sublist (ENGLISH_TEACHER_FULL_NAME self) teacher)"

text \<open>\<open>hours, minutes = map(int, t.split(':'))\<close>: anything but two integers is a \<open>ValueError\<close>.\<close>

definition parse_clock :: "string \<Rightarrow> error + int \<times> int" where
  "parse_clock t =
     andThen (py_split '':'' t) (\<lambda>parts.
       case parts of
         [h, m] \<Rightarrow> andThen (py_int h) (\<lambda>hours. andThen (py_int m) (\<lambda>minutes. Inr (hours, minutes)))
       | _ \<Rightarrow> Inl ValueError)"

definition parse_time_range :: "string \<Rightarrow> error + (int \<times> int) \<times> (int \<times> int)" where
  "parse_time_range t =
     andThen (py_split en_dash t) (\<lambda>parts.
       case parts of
         [time_begin, time_end] \<Rightarrow>
           andThen (parse_clock time_begin) (\<lambda>b.
           andThen (parse_clock time_end) (\<lambda>e. Inr (b, e)))
       | _ \<Rightarrow> Inl ValueError)"

section \<open>get\_calendar\<close>

text \<open>Lines 129 and 130: the normalised texts of the subject and of the teacher.\<close>

definition row_texts :: "lesson_tag \<Rightarrow> error + string \<times> string" where
  "row_texts lesson_tag_divs =
     andThen (div_span lesson_tag_divs 1) (\<lambda>subject_span.
     andThen (div_span lesson_tag_divs 3) (\<lambda>teacher_span.
       Inr (normalize_text (span_text subject_span), normalize_text (span_text teacher_span))))"

text \<open>
  Lines 135 to 141: the clock times of the time range, and whether the time element
  carries the class \<open>cancelled\<close>. Without a \<open>class\<close> attribute \<open>get\<close> returns
  \<open>None\<close> and the membership test raises \<open>TypeError\<close>.
\<close>

definition row_times :: "lesson_tag \<Rightarrow> error + ((int \<times> int) \<times> (int \<times> int)) \<times> bool" where
  "row_times lesson_tag_divs =
     andThen (div_span lesson_tag_divs 0) (\<lambda>time_tag.
     andThen (parse_time_range (normalize_text (span_text time_tag))) (\<lambda>times.
       case span_class time_tag of
         None \<Rightarrow> Inl TypeError
       | Some classes \<Rightarrow> Inr (times, List.member classes ''cancelled'')))"

text \<open>
  The event of lines 172 to 180. The travel time is set for the row at index 0 only.
\<close>

definition lesson_event ::
  "config \<Rightarrow> nat \<Rightarrow> string \<Rightarrow> string \<Rightarrow> date \<times> int \<times> int \<Rightarrow> date \<times> int \<times> int \<Rightarrow> bool
     \<Rightarrow> string \<Rightarrow> CalendarEventJSON" where
  "lesson_event self i subject teacher begin_datetime end_datetime is_cancelled location_text =
     \<lparr>name = JString subject,
      begin' = JString (datetime_isoformat begin_datetime),
      end' = JString (datetime_isoformat end_datetime),
      status = JString (if is_cancelled then ''CANCELLED'' else ''CONFIRMED''),
      location = JString location_text,
      description = JString (teacher_label @ teacher),
      x_apple_travel_time =
        (if i = 0 then JString (FIRST_LESSON_X_TRAVEL_TIME self) else JNull)\<rparr>"

text \<open>
  One pass of the body of the lesson loop, lines 127 to 180, for the row at index \<open>i\<close> of
  its day block. The state is the cache \<open>calendar_json\<close> with the flag
  \<open>is_first_english_lesson_cancelled\<close>. The steps are in the order of the source, so the
  first exception of the source is the error returned: the day's list is looked up
  before the arguments of the new event are evaluated.
\<close>

definition lesson_step ::
  "config \<Rightarrow> date \<Rightarrow> nat \<Rightarrow> lesson_tag \<Rightarrow> cache \<times> bool \<Rightarrow> error + cache \<times> bool" where
  "lesson_step self current_date i lesson_tag_divs st =
     andThen (row_texts lesson_tag_divs) (\<lambda>texts.
       let subject = fst texts; teacher = snd texts
       in if is_skipped self subject teacher then Inr st
          else
            andThen (row_times lesson_tag_divs) (\<lambda>timing.
              let times = fst timing;
                  override = (sublist english_subject subject
                                \<and> IS_CANCEL_FIRST_ENGLISH_LESSON self \<and> \<not> snd st);
                  is_cancelled = (snd timing \<or> override);
                  is_first_english_lesson_cancelled = (snd st \<or> override)
              in andThen (datetime current_date
                            (fst (fst times) - TIMEZONE_UTC_HOURS_SHIFT self) (snd (fst times)))
                   (\<lambda>begin_datetime.
                 andThen (datetime current_date
                            (fst (snd times) - TIMEZONE_UTC_HOURS_SHIFT self) (snd (snd times)))
                   (\<lambda>end_datetime.
                   let begin_date_iso = date_isoformat (fst begin_datetime);
                       calendar_json = (if i = 0 then AList.update begin_date_iso [] (fst st)
                                        else fst st)
                   in case map_of calendar_json begin_date_iso of
                        None \<Rightarrow> Inl KeyError
                      | Some events \<Rightarrow>
                          andThen (div_span lesson_tag_divs 2) (\<lambda>location_span.
                            Inr (AList.update begin_date_iso
                                   (events @
                                     [lesson_event self i subject teacher begin_datetime
                                        end_datetime is_cancelled
                                        (normalize_text (span_text location_span))])
                                   calendar_json,
                                 is_first_english_lesson_cancelled))))))"

text \<open>\<open>for i, lesson_tag in enumerate(...)\<close>, from index \<open>i\<close> on.\<close>

fun lessons_loop ::
  "config \<Rightarrow> date \<Rightarrow> nat \<Rightarrow> lesson_tag list \<Rightarrow> cache \<times> bool \<Rightarrow> error + cache \<times> bool" where
  "lessons_loop self current_date i [] st = Inr st"
| "lessons_loop self current_date i (lesson_tag # rest) st =
     andThen (lesson_step self current_date i lesson_tag st)
       (lessons_loop self current_date (Suc i) rest)"

text \<open>\<open>for day_tag in day_tags\<close>: the rows of the day, then the date moves on one day.\<close>

fun days_loop ::
  "config \<Rightarrow> day_tag list \<Rightarrow> date \<times> cache \<times> bool \<Rightarrow> error + date \<times> cache \<times> bool" where
  "days_loop self [] st = Inr st"
| "days_loop self (day_tag # rest) st =
     andThen (lessons_loop self (fst st) 0 day_tag (snd st)) (\<lambda>st'.
     andThen (date_add (fst st) 1) (\<lambda>next_date.
       days_loop self rest (next_date, st')))"

text \<open>
  The state of the loop over the weeks: the cache, the date of the cursor, and the dates
  whose page has been requested so far, in order.
\<close>

record week_state =
  calendar_json :: cache
  current_date :: date
  requested :: "date list"

text \<open>
  \<open>for _ in range(self.WEEKS_TO_FETCH)\<close> with \<open>n\<close> passes left. The page of a date is
  given by \<open>fetch\<close>. A status other than 200 leaves the loop; a page without day blocks
  moves the cursor on one week; otherwise the flag is cleared, the day blocks are
  processed and the cursor moves by \<open>7 - current_date.weekday()\<close> days.
\<close>

fun weeks_loop ::
  "config \<Rightarrow> (date \<Rightarrow> response) \<Rightarrow> nat \<Rightarrow> week_state \<Rightarrow> error + week_state" where
  "weeks_loop self fetch 0 st = Inr st"
| "weeks_loop self fetch (Suc n) st =
     (let response = fetch (current_date st);
          st1 = st\<lparr>requested := requested st @ [current_date st]\<rparr>
      in if status_code response \<noteq> 200 then Inr st1
         else if day_tags response = []
         then andThen (date_add (current_date st1) 7) (\<lambda>d.
                weeks_loop self fetch n (st1\<lparr>current_date := d\<rparr>))
         else andThen (days_loop self (day_tags response)
                         (current_date st1, calendar_json st1, False)) (\<lambda>st2.
              andThen (date_add (fst st2) (7 - weekday (fst st2))) (\<lambda>d.
                weeks_loop self fetch n (st1\<lparr>calendar_json := fst (snd st2), current_date := d\<rparr>))))"

text \<open>
  The events handed to the \<open>ics\<close> library, in the order they are added to the calendar.
  The checks that the library makes on the fields of an event are not part of the model.
\<close>

record Event =
  event_name :: json
  event_begin :: json
  event_end :: json
  event_status :: json
  event_location :: json
  event_description :: json
  extra :: "(string \<times> json) list"

definition py_truthy :: "json \<Rightarrow> bool" where
  "py_truthy v =
     (case v of
        JNull \<Rightarrow> False
      | JBool b \<Rightarrow> b
      | JInt i \<Rightarrow> i \<noteq> 0
      | JString s \<Rightarrow> s \<noteq> []
      | JArray xs \<Rightarrow> xs \<noteq> []
      | JObject kvs \<Rightarrow> kvs \<noteq> [])"

definition to_event :: "CalendarEventJSON \<Rightarrow> Event" where
  "to_event calendar_json_event =
     \<lparr>event_name = name calendar_json_event,
      event_begin = begin' calendar_json_event,
      event_end = end' calendar_json_event,
      event_status = status calendar_json_event,
      event_location = location calendar_json_event,
      event_description = description calendar_json_event,
      extra = (if py_truthy (x_apple_travel_time calendar_json_event)
               then [(''X-APPLE-TRAVEL-DURATION;VALUE=DURATION'',
                      x_apple_travel_time calendar_json_event)]
               else [])\<rparr>"

definition export_events :: "cache \<Rightarrow> Event list" where
  "export_events data = concat (map (\<lambda>(date_iso, events). map to_event events) data)"

text \<open>
  \<open>get_calendar\<close>, given today's date, the pages and the storage: the result is the
  exception raised, or the events of the calendar with the dates requested, and with it
  the storage after the call. The cache is saved only when the loop over the weeks ends
  without an exception.
\<close>

definition get_calendar ::
  "config \<Rightarrow> date \<Rightarrow> (date \<Rightarrow> response) \<Rightarrow> storage
     \<Rightarrow> (error + Event list \<times> date list) \<times> storage" where
  "get_calendar self today fetch file =
     (case load_calendar_json file of
        (Inl e, file1) \<Rightarrow> (Inl e, file1)
      | (Inr loaded, file1) \<Rightarrow>
          (case andThen (date_add today (- weekday today)) (\<lambda>monday.
                  weeks_loop self fetch (nat (WEEKS_TO_FETCH self))
                    \<lparr>calendar_json = loaded, current_date = monday, requested = []\<rparr>) of
             Inl e \<Rightarrow> (Inl e, file1)
           | Inr st \<Rightarrow>
               (Inr (export_events (calendar_json st), requested st),
                save_calendar_json (calendar_json st) file1)))"


text \<open>
  A row that the filter of line 132 skips: its subject and teacher texts are found, the
  subject is an English lesson and the teacher is not the configured one.
\<close>

definition skips :: "config \<Rightarrow> lesson_tag \<Rightarrow> bool" where
  "skips self lesson_tag_divs =
     (case row_texts lesson_tag_divs of
        Inl e \<Rightarrow> False
      | Inr texts \<Rightarrow> is_skipped self (fst texts) (snd texts))"

section \<open>Example inputs\<close>

text \<open>
  An environment, the configuration it gives, lesson rows of the page and the events
  expected from them. Day 739131 is Monday 2024-09-02.
\<close>

definition example_environ :: "string \<rightharpoonup> string" where
  "example_environ =
     [''SCHEDULE_BASE_URL'' \<mapsto> ''https://timetable.example/StudentGroupEvents/Primary/1'',
      ''ENGLISH_TEACHER_FULL_NAME'' \<mapsto> ''Smith J.'',
      ''IS_CANCEL_FIRST_ENGLISH_LESSON'' \<mapsto> ''False'',
      ''TIMEZONE_UTC_HOURS_SHIFT'' \<mapsto> ''3'',
      ''WEEKS_TO_FETCH'' \<mapsto> ''3'']"

definition example_config :: config where
  "example_config =
     \<lparr>SCHEDULE_BASE_URL = ''https://timetable.example/StudentGroupEvents/Primary/1'',
      ENGLISH_TEACHER_FULL_NAME = ''Smith J.'',
      IS_CANCEL_FIRST_ENGLISH_LESSON = True,
      TIMEZONE_UTC_HOURS_SHIFT = 3,
      WEEKS_TO_FETCH = 3,
      FETCH_EVERY_HOURS = 6,
      FIRST_LESSON_X_TRAVEL_TIME = ''PT15M''\<rparr>"

definition lesson_row :: "string \<Rightarrow> string \<Rightarrow> string \<Rightarrow> lesson_tag" where
  "lesson_row time_range subject teacher =
     [Some \<lparr>span_text = time_range, span_class = Some [''moreinfo'']\<rparr>,
      Some \<lparr>span_text = subject, span_class = None\<rparr>,
      Some \<lparr>span_text = ''Room 101'', span_class = None\<rparr>,
      Some \<lparr>span_text = teacher, span_class = None\<rparr>]"


definition english_jones :: lesson_tag where
  "english_jones = lesson_row (''09:30'' @ en_dash @ ''11:05'') english_subject ''Jones A.''"

definition maths :: lesson_tag where
  "maths = lesson_row (''11:15'' @ en_dash @ ''12:50'') ''Maths'' ''Euler L.''"

definition expected_event ::
  "string \<Rightarrow> string \<Rightarrow> string \<Rightarrow> string \<Rightarrow> string \<Rightarrow> json \<Rightarrow> CalendarEventJSON" where
  "expected_event subject begin_iso end_iso st teacher travel =
     \<lparr>name = JString subject, begin' = JString begin_iso, end' = JString end_iso,
      status = JString st, location = JString ''Room 101'',
      description = JString (teacher_label @ teacher), x_apple_travel_time = travel\<rparr>"

definition maths_event :: CalendarEventJSON where
  "maths_event =
     expected_event ''Maths'' ''2024-09-02T08:15:00'' ''2024-09-02T09:50:00'' ''CONFIRMED''
       ''Euler L.'' (JString ''PT15M'')"



text \<open>
  The event of the mathematics lesson when it is not at index 0 of its day block, and
  three more pages for the week of 2024-09-02: an English lesson of the configured
  teacher on Monday and on Tuesday; a Monday whose first row is an English lesson of
  another teacher; seven day blocks of one lesson each.
\<close>

definition maths_event_untagged :: CalendarEventJSON where
  "maths_event_untagged =
     expected_event ''Maths'' ''2024-09-02T08:15:00'' ''2024-09-02T09:50:00'' ''CONFIRMED''
       ''Euler L.'' JNull"


definition skipped_first_fetch :: "date \<Rightarrow> response" where
  "skipped_first_fetch d =
     (if d = 739131 then \<lparr>status_code = 200, day_tags = [[english_jones, maths]]\<rparr>
      else \<lparr>status_code = 500, day_tags = []\<rparr>)"

definition seven_days_fetch :: "date \<Rightarrow> response" where
  "seven_days_fetch d =
     (if d = 739131 then \<lparr>status_code = 200, day_tags = replicate 7 [maths]\<rparr>
      else \<lparr>status_code = 500, day_tags = []\<rparr>)"


section \<open>Properties of normalize\_text\<close>




section \<open>Sequencing\<close>

lemma andThen_Inr [simp]: "andThen (Inr x) f = f x"
  by (simp add: andThen_def)

lemma andThen_Inl [simp]: "andThen (Inl e) f = Inl e"
  by (simp add: andThen_def)


section \<open>The cancel flag of the configuration\<close>

lemma set_env_var_bool:
  "set_env_var environ var (EBool False) conv_bool
     = Inr (case environ var of None \<Rightarrow> False | Some s \<Rightarrow> s \<noteq> [])"
  by (simp add: set_env_var_def conv_bool_def split: option.splits)

text \<open>
  Claim C10. The flag \<open>IS_CANCEL_FIRST_ENGLISH_LESSON\<close> is converted with \<open>bool\<close>: the
  call of \<open>set_env_var\<close> never fails, and the flag is false when the variable is unset
  or set to the empty string and true for every other string, \<open>False\<close> and \<open>0\<close>
  included. Whenever \<open>__init__\<close> succeeds, the configuration holds that value.
\<close>

theorem is_cancel_flag_is_bool_of_string:
  "set_env_var environ ''IS_CANCEL_FIRST_ENGLISH_LESSON'' (EBool False) conv_bool
     = Inr (case environ ''IS_CANCEL_FIRST_ENGLISH_LESSON'' of
              None \<Rightarrow> False | Some s \<Rightarrow> s \<noteq> [])
   \<and> (init environ = Inr cfg \<longrightarrow>
        IS_CANCEL_FIRST_ENGLISH_LESSON cfg
          = (case environ ''IS_CANCEL_FIRST_ENGLISH_LESSON'' of
               None \<Rightarrow> False | Some s \<Rightarrow> s \<noteq> []))"
proof (intro conjI impI)
  show "set_env_var environ ''IS_CANCEL_FIRST_ENGLISH_LESSON'' (EBool False) conv_bool
          = Inr (case environ ''IS_CANCEL_FIRST_ENGLISH_LESSON'' of
                   None \<Rightarrow> False | Some s \<Rightarrow> s \<noteq> [])"
    by (rule set_env_var_bool)
next
  assume "init environ = Inr cfg"
  then show "IS_CANCEL_FIRST_ENGLISH_LESSON cfg
               = (case environ ''IS_CANCEL_FIRST_ENGLISH_LESSON'' of
                    None \<Rightarrow> False | Some s \<Rightarrow> s \<noteq> [])"
    unfolding init_def andThen_def
    by (auto simp: set_env_var_bool split: sum.splits)
qed

text \<open>
  Witness for C10: with the variable set to the string \<open>False\<close>, \<open>__init__\<close> succeeds
  and the flag is true.
\<close>

theorem is_cancel_flag_is_bool_of_string_witness:
  "init example_environ = Inr example_config
   \<and> example_environ ''IS_CANCEL_FIRST_ENGLISH_LESSON'' = Some ''False''
   \<and> IS_CANCEL_FIRST_ENGLISH_LESSON example_config"
proof -
  have h: "init example_environ = Inr example_config"
    by (simp add: init_def example_environ_def example_config_def set_env_var_def conv_bool_def
        conv_str_def conv_int_def py_int_def py_strip_def is_py_space_def int_unsigned_def
        is_digit_def digit_val_def)
  have e: "example_environ ''IS_CANCEL_FIRST_ENGLISH_LESSON'' = Some ''False''"
    by (simp add: example_environ_def)
  from is_cancel_flag_is_bool_of_string [of example_environ example_config] h e
  show ?thesis by simp
qed

section \<open>Loading and saving the cache\<close>



lemma event_of_json_asdict: "event_of_json (asdict e) = Inr e"
  by (simp add: event_of_json_def asdict_def new_CalendarEventJSON_def field_names_def)

lemma events_of_asdict: "events_of (map asdict es) = Inr es"
  by (induction es) (simp_all add: event_of_json_asdict)

lemma update_fresh_key: "k \<notin> fst ` set al \<Longrightarrow> AList.update k v al = al @ [(k, v)]"
  by (induction al) auto

lemma load_items_saved:
  "distinct (map fst data) \<Longrightarrow> fst ` set data \<inter> fst ` set acc = {} \<Longrightarrow>
   load_items (map (\<lambda>(date_iso, events). (date_iso, JArray (map asdict events))) data) acc
     = Inr (acc @ data)"
proof (induction data arbitrary: acc)
  case Nil
  then show ?case by simp
next
  case (Cons p data)
  obtain k es where p: "p = (k, es)" by (cases p)
  from Cons.prems p have fresh: "k \<notin> fst ` set acc" by auto
  from Cons.prems p have d: "distinct (map fst data)" by simp
  from Cons.prems p have disj: "fst ` set data \<inter> fst ` set (acc @ [(k, es)]) = {}" by auto
  show ?case
    using Cons.IH [OF d disj] fresh
    by (simp add: p py_iter_def events_of_asdict update_fresh_key)
qed

text \<open>
  Claim C6. For every mapping from date strings to lists of events (a \<open>dict\<close>, so its
  keys are distinct), loading what \<open>save_calendar_json\<close> wrote returns the mapping
  itself, and leaves the storage as written.
\<close>

theorem save_load_roundtrip:
  "distinct (map fst data) \<Longrightarrow>
   load_calendar_json (save_calendar_json data file) = (Inr data, save_calendar_json data file)"
  using load_items_saved [of data "[]"]
  by (simp add: load_calendar_json_def save_calendar_json_def)

text \<open>Witness for C6: a mapping of two days, one with an event and one with none.\<close>

theorem save_load_roundtrip_witness:
  "distinct (map fst [(''2024-09-02'', [maths_event]), (''2024-09-03'', [])])
   \<and> load_calendar_json
        (save_calendar_json [(''2024-09-02'', [maths_event]), (''2024-09-03'', [])] None)
       = (Inr [(''2024-09-02'', [maths_event]), (''2024-09-03'', [])],
          save_calendar_json [(''2024-09-02'', [maths_event]), (''2024-09-03'', [])] None)"
proof -
  have h: "distinct (map fst [(''2024-09-02'', [maths_event]),
                              (''2024-09-03'', [] :: CalendarEventJSON list)])"
    by simp
  from h save_load_roundtrip [OF h, of None] show ?thesis by blast
qed

section \<open>Skipped rows and the missing key\<close>

lemma lesson_step_skips: "skips self t \<Longrightarrow> lesson_step self d i t st = Inr st"
  by (auto simp: skips_def lesson_step_def split: sum.splits)

lemma lessons_loop_skips:
  "list_all (skips self) rows \<Longrightarrow> lessons_loop self d i rows st = Inr st"
  by (induction rows arbitrary: i) (simp_all add: lesson_step_skips)

lemma lessons_loop_append:
  "lessons_loop self d i (xs @ ys) st =
     andThen (lessons_loop self d i xs st) (lessons_loop self d (i + length xs) ys)"
proof (induction xs arbitrary: i st)
  case Nil
  show ?case by simp
next
  case (Cons x xs)
  show ?case
    by (cases "lesson_step self d i x st") (simp_all add: Cons.IH)
qed

lemma datetime_date: "datetime d h m = Inr b \<Longrightarrow> fst b = d"
  by (auto simp: datetime_def split: if_splits)

lemma lesson_step_KeyError:
  assumes "0 < i" and "map_of cj (date_isoformat d) = None"
    and "row_texts r = Inr (subject, teacher)" and "\<not> is_skipped self subject teacher"
    and "row_times r = Inr (((bh, bm), (eh, em)), pc)"
    and "datetime d (bh - TIMEZONE_UTC_HOURS_SHIFT self) bm = Inr b"
    and "datetime d (eh - TIMEZONE_UTC_HOURS_SHIFT self) em = Inr e"
  shows "lesson_step self d i r (cj, flag) = Inl KeyError"
  using assms datetime_date [OF assms(6)]
  by (simp add: lesson_step_def Let_def)

text \<open>
  Claim C9. Let the rows of a day block begin with one or more rows that the filter
  skips, so that the row at index 0 is discarded, and let the cache have no entry for
  the day's date. If the next row is retained and its time range and clock times are
  accepted, so that it reaches the append, then processing the day block raises
  \<open>KeyError\<close>: the day's list is created only at index 0.
\<close>

theorem skipped_first_row_KeyError:
  assumes "skipped \<noteq> []" and "list_all (skips self) skipped"
    and "map_of cj (date_isoformat d) = None"
    and "row_texts r = Inr (subject, teacher)" and "\<not> is_skipped self subject teacher"
    and "row_times r = Inr (((bh, bm), (eh, em)), pc)"
    and "datetime d (bh - TIMEZONE_UTC_HOURS_SHIFT self) bm = Inr b"
    and "datetime d (eh - TIMEZONE_UTC_HOURS_SHIFT self) em = Inr e"
  shows "lessons_loop self d 0 (skipped @ r # rest) (cj, flag) = Inl KeyError"
proof -
  from assms(1) have pos: "0 < length skipped" by simp
  have "lesson_step self d (length skipped) r (cj, flag) = Inl KeyError"
    by (rule lesson_step_KeyError [OF pos assms(3-8)])
  then show ?thesis
    by (simp add: lessons_loop_append lessons_loop_skips [OF assms(2)])
qed

text \<open>
  Witness for C9: on Monday 2024-09-02 with an empty cache, an English lesson of another
  teacher followed by a mathematics lesson.
\<close>

theorem skipped_first_row_KeyError_witness:
  "lessons_loop example_config 739131 0 [english_jones, maths] ([], False) = Inl KeyError"
proof -
  have h1: "[english_jones] \<noteq> []" by simp
  have h2: "list_all (skips example_config) [english_jones]" by code_simp
  have h3: "map_of ([] :: cache) (date_isoformat 739131) = None" by simp
  have h4: "row_texts maths = Inr (''Maths'', ''Euler L.'')" by code_simp
  have h5: "\<not> is_skipped example_config ''Maths'' ''Euler L.''" by code_simp
  have h6: "row_times maths = Inr (((11, 15), (12, 50)), False)" by code_simp
  have h7: "datetime 739131 (11 - TIMEZONE_UTC_HOURS_SHIFT example_config) 15
              = Inr (739131, 8, 15)"
    by (simp add: datetime_def example_config_def)
  have h8: "datetime 739131 (12 - TIMEZONE_UTC_HOURS_SHIFT example_config) 50
              = Inr (739131, 9, 50)"
    by (simp add: datetime_def example_config_def)
  show ?thesis
    using skipped_first_row_KeyError [OF h1 h2 h3 h4 h5 h6 h7 h8, of "[]" False] by simp
qed

section \<open>A failed fetch\<close>





section \<open>A retained row\<close>

text \<open>
  What \<open>lesson_step\<close> does with a row that is retained, whose times are accepted and
  whose day has a list in the cache once the reset of index 0 is done.
\<close>

lemma lesson_step_retained:
  assumes "row_texts r = Inr (subject, teacher)" and "\<not> is_skipped self subject teacher"
    and "row_times r = Inr ((bt, et), pc)"
    and "datetime d (fst bt - TIMEZONE_UTC_HOURS_SHIFT self) (snd bt) = Inr b"
    and "datetime d (fst et - TIMEZONE_UTC_HOURS_SHIFT self) (snd et) = Inr e"
    and "map_of (if i = 0 then AList.update (date_isoformat d) [] cj else cj) (date_isoformat d)
           = Some events"
    and "div_span r 2 = Inr loc"
  shows "lesson_step self d i r (cj, flag) =
           Inr (AList.update (date_isoformat d)
                  (events @
                    [lesson_event self i subject teacher b e
                       (pc \<or> sublist english_subject subject
                              \<and> IS_CANCEL_FIRST_ENGLISH_LESSON self \<and> \<not> flag)
                       (normalize_text (span_text loc))])
                  (if i = 0 then AList.update (date_isoformat d) [] cj else cj),
                flag \<or> sublist english_subject subject
                          \<and> IS_CANCEL_FIRST_ENGLISH_LESSON self \<and> \<not> flag)"
proof -
  have fb: "fst b = d" by (rule datetime_date [OF assms(4)])
  show ?thesis
  proof (cases "i = 0")
    case True
    with assms(6) have ev: "events = []" by (simp add: update_conv)
    from True assms(1-5,7) fb ev show ?thesis
      by (simp add: lesson_step_def Let_def update_conv)
  next
    case False
    with assms fb show ?thesis
      by (simp add: lesson_step_def Let_def)
  qed
qed

section \<open>The rows of the examples\<close>

lemma texts_maths: "row_texts maths = Inr (''Maths'', ''Euler L.'')"
  by code_simp


lemma times_maths: "row_times maths = Inr (((11, 15), (12, 50)), False)"
  by code_simp


lemma kept_maths: "\<not> is_skipped example_config ''Maths'' ''Euler L.''"
  by code_simp


lemma skips_jones: "skips example_config english_jones"
  by code_simp

lemma maths_not_english: "\<not> sublist english_subject ''Maths''"
  by code_simp

lemma room: "div_span (lesson_row t s te) 2 = Inr \<lparr>span_text = ''Room 101'', span_class = None\<rparr>"
  by (simp add: div_span_def lesson_row_def)

lemma room_text: "normalize_text ''Room 101'' = ''Room 101''"
  by code_simp

lemma iso_days:
  "date_isoformat 739131 = ''2024-09-02''"
  "date_isoformat 739132 = ''2024-09-03''"
  by code_simp+

lemma pads:
  "zero_pad 2 5 = ''05''" "zero_pad 2 6 = ''06''" "zero_pad 2 8 = ''08''" "zero_pad 2 9 = ''09''"
  "zero_pad 2 15 = ''15''" "zero_pad 2 30 = ''30''" "zero_pad 2 50 = ''50''"
  by code_simp+

lemma travel: "FIRST_LESSON_X_TRAVEL_TIME example_config = ''PT15M''"
  by (simp add: example_config_def)

lemma three_weeks: "nat (WEEKS_TO_FETCH example_config) = Suc (Suc (Suc 0))"
  by (simp add: example_config_def)

lemma maths_step:
  assumes "map_of (if i = 0 then AList.update (date_isoformat d) [] cj else cj) (date_isoformat d)
             = Some events"
  shows "lesson_step example_config d i maths (cj, f) =
           Inr (AList.update (date_isoformat d)
                  (events @ [lesson_event example_config i ''Maths'' ''Euler L.'' (d, 8, 15)
                               (d, 9, 50) False ''Room 101''])
                  (if i = 0 then AList.update (date_isoformat d) [] cj else cj), f)"
proof -
  have b: "datetime d (fst (11, 15) - TIMEZONE_UTC_HOURS_SHIFT example_config)
             (snd (11, 15 :: int)) = Inr (d, 8, 15)"
    by (simp add: datetime_def example_config_def)
  have e: "datetime d (fst (12, 50) - TIMEZONE_UTC_HOURS_SHIFT example_config)
             (snd (12, 50 :: int)) = Inr (d, 9, 50)"
    by (simp add: datetime_def example_config_def)
  have l: "div_span maths 2 = Inr \<lparr>span_text = ''Room 101'', span_class = None\<rparr>"
    unfolding maths_def by (rule room)
  show ?thesis
    using lesson_step_retained [OF texts_maths kept_maths times_maths b e assms l, of f]
    by (simp add: maths_not_english room_text)
qed


section \<open>The override of the first English lesson\<close>









section \<open>A skipped row at index 0\<close>

text \<open>
  Claim C2 at a failing input: on Monday 2024-09-02 the row at index 0 is an English
  lesson of another teacher and the cache holds the day's event of an earlier cycle.
  The skipped row adds no event, but the day's first retained lesson, at index 1, is
  appended to the old list without the travel time: the day is not rebuilt.
\<close>

theorem skipped_first_row_no_travel_time_no_rebuild:
  "lessons_loop example_config 739131 0 [english_jones, maths]
     ([(''2024-09-02'', [maths_event])], False)
     = Inr ([(''2024-09-02'', [maths_event, maths_event_untagged])], False)
   \<and> x_apple_travel_time maths_event_untagged = JNull"
  by (simp add: lesson_step_skips [OF skips_jones] maths_step iso_days lesson_event_def
      maths_event_def maths_event_untagged_def expected_event_def datetime_isoformat_def pads
      travel)

text \<open>
  Claim C4 at a failing input: the same page in two consecutive cycles, starting from a
  storage that holds the day's event of an earlier cycle. The first cycle saves two
  events for the day and the second cycle three: the cache entry is not the same after
  the second cycle.
\<close>

theorem skipped_first_row_not_idempotent:
  "snd (get_calendar example_config 739131 skipped_first_fetch
          (save_calendar_json [(''2024-09-02'', [maths_event])] None))
     = save_calendar_json [(''2024-09-02'', [maths_event, maths_event_untagged])] None
   \<and> snd (get_calendar example_config 739131 skipped_first_fetch
            (save_calendar_json [(''2024-09-02'', [maths_event, maths_event_untagged])] None))
       = save_calendar_json
           [(''2024-09-02'', [maths_event, maths_event_untagged, maths_event_untagged])] None"
proof -
  have l1: "load_calendar_json (save_calendar_json [(''2024-09-02'', [maths_event])] None)
              = (Inr [(''2024-09-02'', [maths_event])],
                 save_calendar_json [(''2024-09-02'', [maths_event])] None)"
    using load_items_saved [of "[(''2024-09-02'', [maths_event])]" "[]"]
    by (simp add: load_calendar_json_def save_calendar_json_def)
  have l2: "load_calendar_json
              (save_calendar_json [(''2024-09-02'', [maths_event, maths_event_untagged])] None)
              = (Inr [(''2024-09-02'', [maths_event, maths_event_untagged])],
                 save_calendar_json [(''2024-09-02'', [maths_event, maths_event_untagged])] None)"
    using load_items_saved [of "[(''2024-09-02'', [maths_event, maths_event_untagged])]" "[]"]
    by (simp add: load_calendar_json_def save_calendar_json_def)
  have ev: "lesson_event example_config (Suc 0) ''Maths'' ''Euler L.'' (739131, 8, 15)
              (739131, 9, 50) False ''Room 101'' = maths_event_untagged"
    by (simp add: lesson_event_def maths_event_untagged_def expected_event_def
        datetime_isoformat_def pads iso_days)
  have s: "save_calendar_json data (save_calendar_json data' None) = save_calendar_json data None"
    for data data'
    by (simp add: save_calendar_json_def)
  show ?thesis
    by (simp add: get_calendar_def l1 l2 three_weeks skipped_first_fetch_def
        lesson_step_skips [OF skips_jones] maths_step iso_days ev date_add_def weekday_def s)
qed

section \<open>The cursor after a week of seven day blocks\<close>

text \<open>
  Claim C3 at a failing input: the cursor is on Monday 2024-09-02 and the page of the
  week has seven day blocks. After the week the cursor is 14 days later, on Monday
  2024-09-16, and not on the next Monday.
\<close>

theorem seven_day_blocks_skip_a_week:
  "weekday 739131 = 0
   \<and> length (day_tags (seven_days_fetch 739131)) = 7
   \<and> map_sum id current_date
       (weeks_loop example_config seven_days_fetch (Suc 0)
          \<lparr>calendar_json = [], current_date = 739131, requested = []\<rparr>)
       = Inr (739131 + 14)"
  by (simp add: seven_days_fetch_def eval_nat_numeral maths_step update_conv date_add_def
      weekday_def)

end
